theory Spec2Isabelle
  imports Complex_Main "HOL-Library.Log_Nat"
begin

section \<open>Numbers\<close>

text \<open>
  The program is the Go package \<^verbatim>\<open>main\<close> of the command-pattern demonstration.
  Balances and amounts are \<^verbatim>\<open>float64\<close> in the source. The definitions of the
  embedding are parametric in the numeric type \<open>'a\<close> and use only what the source uses:
  \<open>+\<close>, \<open>-\<close>, \<open><\<close> and the literal \<open>-500.0\<close>. No law of arithmetic is assumed of
  \<open>'a\<close>, so a theorem stated for every \<open>'a\<close> holds however \<open>+\<close> and \<open>-\<close> round and
  whatever \<open><\<close> answers; it holds of \<^verbatim>\<open>float64\<close>. Where a statement depends on rounding,
  on an infinity or on NaN, it is stated for the type \<open>float64\<close> below.
\<close>

subsection \<open>The type \<^verbatim>\<open>float64\<close>\<close>

text \<open>
  IEEE 754 binary64, which Go's \<^verbatim>\<open>float64\<close> is. A finite value is the rational number
  it denotes: a multiple of \<open>2\<^sup>q\<close> with at most 53 significant bits, where
  \<open>-1074 \<le> q \<le> 971\<close>. The two zeros are one value
  here: Go's comparisons do not tell them apart and the program neither divides nor
  looks at a sign. All NaNs are one value. The datatype also has terms \<open>Finite x\<close> for
  rationals \<open>x\<close> that no \<^verbatim>\<open>float64\<close> denotes; an operation yields none of them, since
  a result is either rounded by \<open>round64\<close> or the negation of an argument, and what is
  proved for every term holds for those that denote a \<^verbatim>\<open>float64\<close>.
\<close>

datatype float64 = Finite rat | PosInf | NegInf | NaN

text \<open>\<open>2\<^sup>q\<close> for an integer \<open>q\<close>.\<close>

definition pow2 :: "int \<Rightarrow> rat" where
  "pow2 q = (if 0 \<le> q then 2 ^ nat q else 1 / 2 ^ nat (- q))"

text \<open>
  For \<open>a > 0\<close>, the integer \<open>e\<close> with \<open>2\<^sup>e \<le> a < 2\<^sup>e\<^sup>+\<^sup>1\<close>; \<open>bitlen n\<close> is the number of
  binary digits of \<open>n\<close>.
\<close>

definition ilog2 :: "rat \<Rightarrow> int" where
  "ilog2 a = (if 1 \<le> a then bitlen \<lfloor>a\<rfloor> - 1 else - bitlen (\<lceil>1 / a\<rceil> - 1))"

text \<open>The nearest integer; of two equally near ones, the even one.\<close>

definition round_half_even :: "rat \<Rightarrow> int" where
  "round_half_even n =
     (let f = \<lfloor>n\<rfloor>; r = n - of_int f in
      if r < 1 / 2 then f else if 1 / 2 < r then f + 1 else if even f then f else f + 1)"

text \<open>
  Rounding to nearest, ties to even: the result of every arithmetic operation. The
  spacing of the representable numbers around \<open>x\<close> is \<open>2\<^sup>q\<close>, where \<open>q\<close> leaves 53 bits
  and is at least \<open>-1074\<close> (the subnormal numbers); a result that reaches \<open>2\<^sup>1\<^sup>0\<^sup>2\<^sup>4\<close> is an
  infinity.
\<close>

definition round64 :: "rat \<Rightarrow> float64" where
  "round64 x =
     (if x = 0 then Finite 0
      else let q = max (ilog2 \<bar>x\<bar> - 52) (- 1074);
               y = of_int (round_half_even (x / pow2 q)) * pow2 q
           in if 2 ^ 1024 \<le> y then PosInf else if y \<le> - (2 ^ 1024) then NegInf else Finite y)"

text \<open>
  The operations the program uses. A sum with a NaN, and the sum of the two infinities,
  is NaN; \<open>x - y\<close> is \<open>x + (-y)\<close>; every comparison with a NaN is false.
\<close>

instantiation float64 :: "{zero,one,plus,minus,uminus,ord}"
begin

definition zero_float64 :: float64 where
  "zero_float64 = Finite 0"

definition one_float64 :: float64 where
  "one_float64 = Finite 1"

definition plus_float64 :: "float64 \<Rightarrow> float64 \<Rightarrow> float64" where
  "plus_float64 x y =
     (case x of
        NaN \<Rightarrow> NaN
      | Finite a \<Rightarrow> (case y of Finite b \<Rightarrow> round64 (a + b) | PosInf \<Rightarrow> PosInf | NegInf \<Rightarrow> NegInf | NaN \<Rightarrow> NaN)
      | PosInf \<Rightarrow> (case y of Finite b \<Rightarrow> PosInf | PosInf \<Rightarrow> PosInf | NegInf \<Rightarrow> NaN | NaN \<Rightarrow> NaN)
      | NegInf \<Rightarrow> (case y of Finite b \<Rightarrow> NegInf | PosInf \<Rightarrow> NaN | NegInf \<Rightarrow> NegInf | NaN \<Rightarrow> NaN))"

definition uminus_float64 :: "float64 \<Rightarrow> float64" where
  "uminus_float64 x =
     (case x of Finite a \<Rightarrow> Finite (- a) | PosInf \<Rightarrow> NegInf | NegInf \<Rightarrow> PosInf | NaN \<Rightarrow> NaN)"

definition minus_float64 :: "float64 \<Rightarrow> float64 \<Rightarrow> float64" where
  "minus_float64 x y = x + (- y)"

definition less_float64 :: "float64 \<Rightarrow> float64 \<Rightarrow> bool" where
  "less_float64 x y =
     (case x of
        NaN \<Rightarrow> False
      | Finite a \<Rightarrow> (case y of Finite b \<Rightarrow> a < b | PosInf \<Rightarrow> True | NegInf \<Rightarrow> False | NaN \<Rightarrow> False)
      | PosInf \<Rightarrow> False
      | NegInf \<Rightarrow> (case y of Finite b \<Rightarrow> True | PosInf \<Rightarrow> True | NegInf \<Rightarrow> False | NaN \<Rightarrow> False))"

definition less_eq_float64 :: "float64 \<Rightarrow> float64 \<Rightarrow> bool" where
  "less_eq_float64 x y \<longleftrightarrow> x < y \<or> (x = y \<and> x \<noteq> NaN)"

instance ..

end

subsection \<open>Literals\<close>

text \<open>
  The value of a positive integer literal in \<open>'a\<close>, from \<open>1\<close> and \<open>+\<close> alone, by the
  binary digits of the integer. In \<open>float64\<close> no sum on the way to 500 is rounded.
\<close>

primrec literal :: "num \<Rightarrow> 'a::{one,plus}" where
  "literal num.One = 1"
| "literal (num.Bit0 n) = (let x = literal n in x + x)"
| "literal (num.Bit1 n) = (let x = literal n in x + x + 1)"

section \<open>Bank accounts\<close>

text \<open>\<^verbatim>\<open>var overdraftLimit = -500.0\<close>; it is never reassigned.\<close>

definition overdraftLimit :: "'a::{one,plus,uminus}" where
  "overdraftLimit = - literal (num_of_nat 500)"

record 'a BankAccount =
  balance :: 'a

text \<open>
  \<^verbatim>\<open>func (account *BankAccount) Withdraw(amount float64) bool\<close>: the method mutates
  the receiver and returns a flag; the model returns the flag and the account after
  the call.
\<close>

definition BankAccount_Withdraw :: "'a::{one,plus,minus,uminus,ord} BankAccount \<Rightarrow> 'a \<Rightarrow> bool \<times> 'a BankAccount" where
  "BankAccount_Withdraw acct amt =
     (if balance acct - amt < overdraftLimit then (False, acct)
      else (True, acct\<lparr>balance := balance acct - amt\<rparr>))"

text \<open>\<^verbatim>\<open>func (account *BankAccount) Deposit(amount float64)\<close>\<close>

definition BankAccount_Deposit :: "'a::plus BankAccount \<Rightarrow> 'a \<Rightarrow> 'a BankAccount" where
  "BankAccount_Deposit acct amt = acct\<lparr>balance := balance acct + amt\<rparr>"

section \<open>Commands\<close>

text \<open>
  \<^verbatim>\<open>type Action int\<close> with the two constants \<^verbatim>\<open>Deposit\<close> and \<^verbatim>\<open>Withdraw\<close>, the
  only values the program gives an action.
\<close>

datatype Action = Deposit | Withdraw

text \<open>
  Accounts and leaf commands are reached through pointers and mutated in place, and
  one account is shared by several commands. They live in a store: a pointer is an
  address, and the store maps each address to the object it holds. Pointers are never
  \<^verbatim>\<open>nil\<close> here: every address holds an object.
\<close>

type_synonym account_ptr = nat
type_synonym command_ptr = nat

record 'a BankAccountCommand =
  account :: account_ptr
  action :: Action
  amount :: 'a
  succeeded :: bool

text \<open>
  \<open>fresh\<close> is the next unused command address: \<^verbatim>\<open>&BankAccountCommand{...}\<close>
  allocates there.
\<close>

record 'a store =
  account_at :: "account_ptr \<Rightarrow> 'a BankAccount"
  command_at :: "command_ptr \<Rightarrow> 'a BankAccountCommand"
  fresh :: command_ptr

text \<open>
  A value of the interface \<^verbatim>\<open>Command\<close> is a pointer to one of the three
  implementations. A composite holds the slice \<^verbatim>\<open>commands []Command\<close>, which no
  method ever changes, so a composite is the (immutable, finite) list of its members; only leaf
  commands carry mutable state, and they stay in the store, so that the same leaf may
  occur in several places. \<^verbatim>\<open>MoneyTransferCommand\<close> embeds the composite and adds
  \<^verbatim>\<open>from\<close>, \<^verbatim>\<open>to\<close> and \<^verbatim>\<open>amount\<close>.
\<close>

datatype 'a Command =
    Leaf command_ptr
  | Composite "'a Command list"
  | MoneyTransfer "'a Command list" account_ptr account_ptr 'a

subsection \<open>The leaf command\<close>

text \<open>\<^verbatim>\<open>func (c *BankAccountCommand) Call()\<close>\<close>

definition BankAccountCommand_Call :: "command_ptr \<Rightarrow> 'a::{one,plus,minus,uminus,ord} store \<Rightarrow> 'a store" where
  "BankAccountCommand_Call p s =
     (let c = command_at s p in
      case action c of
        Deposit \<Rightarrow>
          s\<lparr>account_at := (account_at s)(account c := BankAccount_Deposit (account_at s (account c)) (amount c)),
            command_at := (command_at s)(p := c\<lparr>succeeded := True\<rparr>)\<rparr>
      | Withdraw \<Rightarrow>
          (let (ok, acct) = BankAccount_Withdraw (account_at s (account c)) (amount c) in
           s\<lparr>account_at := (account_at s)(account c := acct),
             command_at := (command_at s)(p := c\<lparr>succeeded := ok\<rparr>)\<rparr>))"

text \<open>
  \<^verbatim>\<open>func (c *BankAccountCommand) Undo()\<close>: the result of the inverse
  \<^verbatim>\<open>Withdraw\<close> is dropped, and the flag is left as it is.
\<close>

definition BankAccountCommand_Undo :: "command_ptr \<Rightarrow> 'a::{one,plus,minus,uminus,ord} store \<Rightarrow> 'a store" where
  "BankAccountCommand_Undo p s =
     (let c = command_at s p in
      if \<not> succeeded c then s
      else case action c of
        Deposit \<Rightarrow>
          s\<lparr>account_at := (account_at s)(account c := snd (BankAccount_Withdraw (account_at s (account c)) (amount c)))\<rparr>
      | Withdraw \<Rightarrow>
          s\<lparr>account_at := (account_at s)(account c := BankAccount_Deposit (account_at s (account c)) (amount c))\<rparr>)"

text \<open>\<^verbatim>\<open>func (c *BankAccountCommand) Succeeded() bool\<close>\<close>

definition BankAccountCommand_Succeeded :: "command_ptr \<Rightarrow> 'a store \<Rightarrow> bool" where
  "BankAccountCommand_Succeeded p s = succeeded (command_at s p)"

text \<open>\<^verbatim>\<open>func (c *BankAccountCommand) SetSucceeded(value bool)\<close>\<close>

definition BankAccountCommand_SetSucceeded :: "command_ptr \<Rightarrow> bool \<Rightarrow> 'a store \<Rightarrow> 'a store" where
  "BankAccountCommand_SetSucceeded p v s =
     s\<lparr>command_at := (command_at s)(p := (command_at s p)\<lparr>succeeded := v\<rparr>)\<rparr>"

subsection \<open>The composite command\<close>

text \<open>
  A method call on a value of the interface dispatches on the implementation behind
  it. The methods of \<^verbatim>\<open>CompositeBankAccountCommand\<close> take the receiver's only
  field, the slice \<^verbatim>\<open>commands\<close>; each \<^verbatim>\<open>range\<close> loop is a recursion over it.
  \<^verbatim>\<open>MoneyTransferCommand\<close> has \<^verbatim>\<open>Undo\<close>, \<^verbatim>\<open>Succeeded\<close> and
  \<^verbatim>\<open>SetSucceeded\<close> from the composite it embeds and a \<^verbatim>\<open>Call\<close> of its own.
\<close>

text \<open>
  \<^verbatim>\<open>func (c *CompositeBankAccountCommand) Succeeded() bool\<close>: the loop returns false
  at the first member that has not succeeded.
\<close>

fun Succeeded :: "'a Command \<Rightarrow> 'a store \<Rightarrow> bool"
  and CompositeBankAccountCommand_Succeeded :: "'a Command list \<Rightarrow> 'a store \<Rightarrow> bool" where
  "Succeeded (Leaf p) s = BankAccountCommand_Succeeded p s"
| "Succeeded (Composite commands) s = CompositeBankAccountCommand_Succeeded commands s"
| "Succeeded (MoneyTransfer commands from to amt) s = CompositeBankAccountCommand_Succeeded commands s"
| "CompositeBankAccountCommand_Succeeded [] s = True"
| "CompositeBankAccountCommand_Succeeded (cmd # cmds) s =
     (if \<not> Succeeded cmd s then False else CompositeBankAccountCommand_Succeeded cmds s)"

text \<open>\<^verbatim>\<open>func (c *CompositeBankAccountCommand) SetSucceeded(value bool)\<close>\<close>

fun SetSucceeded :: "'a Command \<Rightarrow> bool \<Rightarrow> 'a store \<Rightarrow> 'a store"
  and CompositeBankAccountCommand_SetSucceeded :: "'a Command list \<Rightarrow> bool \<Rightarrow> 'a store \<Rightarrow> 'a store" where
  "SetSucceeded (Leaf p) v s = BankAccountCommand_SetSucceeded p v s"
| "SetSucceeded (Composite commands) v s = CompositeBankAccountCommand_SetSucceeded commands v s"
| "SetSucceeded (MoneyTransfer commands from to amt) v s = CompositeBankAccountCommand_SetSucceeded commands v s"
| "CompositeBankAccountCommand_SetSucceeded [] v s = s"
| "CompositeBankAccountCommand_SetSucceeded (cmd # cmds) v s =
     CompositeBankAccountCommand_SetSucceeded cmds v (SetSucceeded cmd v s)"

text \<open>
  \<^verbatim>\<open>func (c *CompositeBankAccountCommand) Call()\<close> and
  \<^verbatim>\<open>func (c *MoneyTransferCommand) Call()\<close>. The loop of the transfer carries the
  local variable \<^verbatim>\<open>succeded\<close>, which starts as \<^verbatim>\<open>true\<close>.
\<close>

fun Call :: "'a::{one,plus,minus,uminus,ord} Command \<Rightarrow> 'a store \<Rightarrow> 'a store"
  and CompositeBankAccountCommand_Call :: "'a Command list \<Rightarrow> 'a store \<Rightarrow> 'a store"
  and MoneyTransferCommand_Call_loop :: "'a Command list \<Rightarrow> bool \<Rightarrow> 'a store \<Rightarrow> 'a store" where
  "Call (Leaf p) s = BankAccountCommand_Call p s"
| "Call (Composite commands) s = CompositeBankAccountCommand_Call commands s"
| "Call (MoneyTransfer commands from to amt) s = MoneyTransferCommand_Call_loop commands True s"
| "CompositeBankAccountCommand_Call [] s = s"
| "CompositeBankAccountCommand_Call (cmd # cmds) s = CompositeBankAccountCommand_Call cmds (Call cmd s)"
| "MoneyTransferCommand_Call_loop [] succeded s = s"
| "MoneyTransferCommand_Call_loop (cmd # cmds) succeded s =
     (if succeded then
        (let s' = Call cmd s in MoneyTransferCommand_Call_loop cmds (Succeeded cmd s') s')
      else MoneyTransferCommand_Call_loop cmds succeded (SetSucceeded cmd False s))"

text \<open>
  \<^verbatim>\<open>func (c *CompositeBankAccountCommand) Undo()\<close>: the index runs from the last
  member down to the first, so the members after the first are undone before it.
\<close>

fun Undo :: "'a::{one,plus,minus,uminus,ord} Command \<Rightarrow> 'a store \<Rightarrow> 'a store"
  and CompositeBankAccountCommand_Undo :: "'a Command list \<Rightarrow> 'a store \<Rightarrow> 'a store" where
  "Undo (Leaf p) s = BankAccountCommand_Undo p s"
| "Undo (Composite commands) s = CompositeBankAccountCommand_Undo commands s"
| "Undo (MoneyTransfer commands from to amt) s = CompositeBankAccountCommand_Undo commands s"
| "CompositeBankAccountCommand_Undo [] s = s"
| "CompositeBankAccountCommand_Undo (cmd # cmds) s = Undo cmd (CompositeBankAccountCommand_Undo cmds s)"

subsection \<open>The money transfer\<close>

text \<open>\<^verbatim>\<open>&BankAccountCommand{...}\<close>: a new leaf command at the next unused address.\<close>

definition new_BankAccountCommand :: "'a BankAccountCommand \<Rightarrow> 'a store \<Rightarrow> command_ptr \<times> 'a store" where
  "new_BankAccountCommand c s =
     (fresh s, s\<lparr>command_at := (command_at s)(fresh s := c), fresh := Suc (fresh s)\<rparr>)"

text \<open>
  \<^verbatim>\<open>func NewMoneyTransferCommand(from, to *BankAccount, amount float64) *MoneyTransferCommand\<close>.
  The field \<^verbatim>\<open>succeeded\<close> is not given in the two literals, so it starts as false.
\<close>

definition NewMoneyTransferCommand :: "account_ptr \<Rightarrow> account_ptr \<Rightarrow> 'a \<Rightarrow> 'a store \<Rightarrow> 'a Command \<times> 'a store" where
  "NewMoneyTransferCommand from to amt s =
     (let (withdrawCmd, s1) = new_BankAccountCommand \<lparr>account = from, action = Withdraw, amount = amt, succeeded = False\<rparr> s;
          (depositCmd, s2) = new_BankAccountCommand \<lparr>account = to, action = Deposit, amount = amt, succeeded = False\<rparr> s1;
          commands = [Leaf withdrawCmd, Leaf depositCmd]
      in (MoneyTransfer commands from to amt, s2))"

section \<open>Auxiliary definitions\<close>

text \<open>
  The leaf commands a command reaches: those whose flag \<^verbatim>\<open>SetSucceeded\<close> can write.
\<close>

fun leaves :: "'a Command \<Rightarrow> command_ptr set"
  and leaves_all :: "'a Command list \<Rightarrow> command_ptr set" where
  "leaves (Leaf p) = {p}"
| "leaves (Composite commands) = leaves_all commands"
| "leaves (MoneyTransfer commands from to amt) = leaves_all commands"
| "leaves_all [] = {}"
| "leaves_all (cmd # cmds) = leaves cmd \<union> leaves_all cmds"

text \<open>The store in which the flag of every leaf command in \<open>P\<close> is \<open>v\<close>, and nothing else differs.\<close>

definition set_flags :: "command_ptr set \<Rightarrow> bool \<Rightarrow> 'a store \<Rightarrow> 'a store" where
  "set_flags P v s =
     s\<lparr>command_at := (\<lambda>p. if p \<in> P then (command_at s p)\<lparr>succeeded := v\<rparr> else command_at s p)\<rparr>"

text \<open>
  A store as \<^verbatim>\<open>main\<close> sets one up before it builds a command: two accounts, at the
  addresses 0 and 1, with the given balances, and no command allocated yet.
\<close>

definition accounts_store :: "'a::zero \<Rightarrow> 'a \<Rightarrow> 'a store" where
  "accounts_store a b =
     \<lparr>account_at = (\<lambda>_. \<lparr>balance = 0\<rparr>)(0 := \<lparr>balance = a\<rparr>, Suc 0 := \<lparr>balance = b\<rparr>),
      command_at = (\<lambda>_. \<lparr>account = 0, action = Deposit, amount = 0, succeeded = False\<rparr>),
      fresh = 0\<rparr>"

section \<open>Basic facts\<close>

subsection \<open>Numbers\<close>

text \<open>Where \<open>'a\<close> has numerals with their laws, the literal is the numeral.\<close>

lemma literal_numeral: "literal n = (numeral n :: 'a::numeral)"
  by (induction n) (simp_all add: numeral.simps Let_def)

lemma overdraftLimit_numeral: "(overdraftLimit :: 'a::{numeral,uminus}) = - 500"
  by (simp add: overdraftLimit_def literal_numeral)

text \<open>Evaluating \<open>float64\<close> arithmetic on given numbers.\<close>

lemma floor_rat_numeral_div:
  "\<lfloor>numeral a / numeral b :: rat\<rfloor> = numeral a div numeral b"
  by (metis floor_divide_of_int_eq of_int_numeral)

lemma floor_rat_neg_numeral_div:
  "\<lfloor>- (numeral a / numeral b) :: rat\<rfloor> = - numeral a div numeral b"
  by (metis floor_divide_of_int_eq of_int_numeral of_int_minus minus_divide_left)

lemma floor_rat_one_div:
  "\<lfloor>1 / numeral b :: rat\<rfloor> = 1 div numeral b"
  by (metis floor_divide_of_int_eq of_int_numeral of_int_1)

lemma ceiling_rat_numeral_div:
  "\<lceil>numeral a / numeral b :: rat\<rceil> = - (- numeral a div numeral b)"
  by (metis ceiling_def floor_divide_of_int_eq minus_divide_left of_int_minus of_int_numeral)

lemmas round64_eval = round64_def ilog2_def round_half_even_def pow2_def Let_def compute_bitlen
  floor_rat_numeral_div floor_rat_neg_numeral_div floor_rat_one_div ceiling_rat_numeral_div

lemma plus_Finite: "Finite a + Finite b = round64 (a + b)"
  by (simp add: plus_float64_def)

lemma minus_Finite: "Finite a - Finite b = round64 (a - b)"
  by (simp add: minus_float64_def uminus_float64_def plus_float64_def)

lemma uminus_Finite: "- Finite a = Finite (- a)"
  by (simp add: uminus_float64_def)

lemma less_Finite: "Finite a < Finite b \<longleftrightarrow> a < b"
  by (simp add: less_float64_def)

lemma less_eq_Finite: "Finite a \<le> Finite b \<longleftrightarrow> a \<le> b"
  by (auto simp add: less_eq_float64_def less_float64_def)

lemma minus_NaN: "x - NaN = NaN"
  by (simp add: minus_float64_def uminus_float64_def plus_float64_def split: float64.split)

lemma not_NaN_less: "\<not> NaN < x"
  by (simp add: less_float64_def)

lemma not_less_NaN: "\<not> x < NaN"
  by (simp add: less_float64_def split: float64.split)

lemma not_less_eq_NaN: "\<not> x \<le> NaN"
  by (simp add: less_eq_float64_def not_less_NaN)

text \<open>Away from NaN, \<open>\<le>\<close> is the negation of \<open>>\<close>.\<close>

lemma less_eq_iff_not_less: "x \<noteq> NaN \<Longrightarrow> y \<noteq> NaN \<Longrightarrow> y \<le> x \<longleftrightarrow> \<not> x < (y::float64)"
  by (cases x; cases y) (auto simp add: less_eq_float64_def less_float64_def)

lemmas float64_eval = plus_Finite minus_Finite uminus_Finite less_Finite less_eq_Finite
  zero_float64_def one_float64_def round64_eval

lemma overdraftLimit_float64: "(overdraftLimit :: float64) = Finite (- 500)"
  by (simp add: overdraftLimit_def float64_eval)

text \<open>
  Some values every binary64 arithmetic gives: the literal \<^verbatim>\<open>0.1\<close>; \<^verbatim>\<open>0.1 + 0.2\<close>, which is
  \<^verbatim>\<open>0.30000000000000004\<close>; that sum minus \<^verbatim>\<open>0.2\<close>, which is \<^verbatim>\<open>0.10000000000000003\<close> and
  not \<^verbatim>\<open>0.1\<close>; the difference of the infinity with itself.
\<close>

lemma round64_tenth: "round64 (1 / 10) = Finite (3602879701896397 / 36028797018963968)"
  by (simp add: float64_eval)

lemma tenth_plus_fifth:
  "Finite (3602879701896397 / 36028797018963968) + Finite (3602879701896397 / 18014398509481984)
     = Finite (1351079888211149 / 4503599627370496)"
  by (simp add: float64_eval)

lemma tenth_plus_fifth_minus_fifth:
  "Finite (1351079888211149 / 4503599627370496) - Finite (3602879701896397 / 18014398509481984)
     = Finite (1801439850948199 / 18014398509481984)"
  by (simp add: float64_eval)

lemma PosInf_minus_PosInf: "PosInf - PosInf = NaN"
  by (simp add: minus_float64_def uminus_float64_def plus_float64_def)

subsection \<open>Commands\<close>

lemmas leaf_defs =
  BankAccountCommand_Call_def BankAccountCommand_Undo_def
  BankAccount_Withdraw_def BankAccount_Deposit_def
  BankAccountCommand_Succeeded_def BankAccountCommand_SetSucceeded_def Let_def

text \<open>The constructor allocates the withdrawal leg and then the deposit leg.\<close>

lemma NewMoneyTransferCommand_eq:
  "NewMoneyTransferCommand from to amt s =
     (MoneyTransfer [Leaf (fresh s), Leaf (Suc (fresh s))] from to amt,
      s\<lparr>command_at := (command_at s)
           (fresh s := \<lparr>account = from, action = Withdraw, amount = amt, succeeded = False\<rparr>,
            Suc (fresh s) := \<lparr>account = to, action = Deposit, amount = amt, succeeded = False\<rparr>),
        fresh := Suc (Suc (fresh s))\<rparr>)"
  by (simp add: NewMoneyTransferCommand_def new_BankAccountCommand_def)

lemma NewMoneyTransferCommand_cases:
  assumes "NewMoneyTransferCommand from to amt s = (t, s1)"
  shows "t = MoneyTransfer [Leaf (fresh s), Leaf (Suc (fresh s))] from to amt"
    and "s1 = s\<lparr>command_at := (command_at s)
           (fresh s := \<lparr>account = from, action = Withdraw, amount = amt, succeeded = False\<rparr>,
            Suc (fresh s) := \<lparr>account = to, action = Deposit, amount = amt, succeeded = False\<rparr>),
        fresh := Suc (Suc (fresh s))\<rparr>"
  using assms by (auto simp add: NewMoneyTransferCommand_eq)

lemma transfer_succeeded_iff:
  fixes s :: "'a::{one,plus,minus,uminus,ord} store"
  assumes "NewMoneyTransferCommand from to amt s = (t, s1)"
  shows "Succeeded t (Call t s1) \<longleftrightarrow> \<not> balance (account_at s from) - amt < overdraftLimit"
  by (simp add: NewMoneyTransferCommand_cases [OF assms] leaf_defs)

lemma transfer_undo_order:
  fixes s2 :: "'a::{one,plus,minus,uminus,ord} store"
  assumes "NewMoneyTransferCommand from to amt s = (t, s1)"
  shows "\<exists>withdrawCmd depositCmd. t = MoneyTransfer [withdrawCmd, depositCmd] from to amt
           \<and> Undo t s2 = Undo withdrawCmd (Undo depositCmd s2)"
  by (simp add: NewMoneyTransferCommand_cases [OF assms])

lemma transfer_undo_distinct:
  fixes s :: "'a::{one,plus,minus,uminus,ord} store"
  assumes "NewMoneyTransferCommand from to amt s = (t, s1)"
    and "\<not> balance (account_at s from) - amt < overdraftLimit"
    and "from \<noteq> to"
  shows "balance (account_at (Undo t (Call t s1)) from) = (balance (account_at s from) - amt) + amt"
    and "balance (account_at (Undo t (Call t s1)) to) =
           (if (balance (account_at s to) + amt) - amt < overdraftLimit then balance (account_at s to) + amt
            else (balance (account_at s to) + amt) - amt)"
  using assms(2,3) by (simp_all add: NewMoneyTransferCommand_cases [OF assms(1)] leaf_defs)

lemma transfer_undo_same:
  fixes s :: "'a::{one,plus,minus,uminus,ord} store"
  assumes "NewMoneyTransferCommand from from amt s = (t, s1)"
    and "\<not> balance (account_at s from) - amt < overdraftLimit"
  shows "balance (account_at (Undo t (Call t s1)) from) =
           (if ((balance (account_at s from) - amt) + amt) - amt < overdraftLimit
            then (balance (account_at s from) - amt) + amt
            else ((balance (account_at s from) - amt) + amt) - amt) + amt"
  using assms(2) by (simp add: NewMoneyTransferCommand_cases [OF assms(1)] leaf_defs)

lemma transfer_undo_frame:
  fixes s :: "'a::{one,plus,minus,uminus,ord} store"
  assumes "NewMoneyTransferCommand from to amt s = (t, s1)"
    and "a \<noteq> from" and "a \<noteq> to"
  shows "account_at (Undo t (Call t s1)) a = account_at s a"
  using assms(2,3) by (simp add: NewMoneyTransferCommand_cases [OF assms(1)] leaf_defs)

lemma composite_call_fold: "CompositeBankAccountCommand_Call cmds s = fold Call cmds s"
  by (induction cmds arbitrary: s) simp_all

lemma transfer_loop_failed:
  "MoneyTransferCommand_Call_loop cmds False s = fold (\<lambda>cmd. SetSucceeded cmd False) cmds s"
  by (induction cmds arbitrary: s) simp_all

lemma composite_succeeded_all:
  "CompositeBankAccountCommand_Succeeded cmds s \<longleftrightarrow> (\<forall>cmd \<in> set cmds. Succeeded cmd s)"
  by (induction cmds) simp_all

lemma composite_undo_rev: "CompositeBankAccountCommand_Undo cmds s = fold Undo (rev cmds) s"
  by (induction cmds arbitrary: s) simp_all

lemma set_flags_empty: "set_flags {} v s = s"
  by (simp add: set_flags_def)

lemma set_flags_union: "set_flags (P \<union> Q) v s = set_flags Q v (set_flags P v s)"
  by (auto simp add: set_flags_def fun_eq_iff)

lemma set_flags_single: "set_flags {p} v s = BankAccountCommand_SetSucceeded p v s"
  by (auto simp add: set_flags_def BankAccountCommand_SetSucceeded_def fun_eq_iff)

lemma SetSucceeded_set_flags:
  "SetSucceeded c v s = set_flags (leaves c) v s"
  "CompositeBankAccountCommand_SetSucceeded cs v s = set_flags (leaves_all cs) v s"
  by (induction c v s and cs v s rule: SetSucceeded_CompositeBankAccountCommand_SetSucceeded.induct)
    (simp_all add: set_flags_empty set_flags_union set_flags_single)

section \<open>The account\<close>

text \<open>
  The postcondition of \<^verbatim>\<open>Withdraw\<close> does not hold for every amount. The guard is
  \<open>balance - amount < overdraftLimit\<close>, and a comparison with NaN is false: withdrawing
  NaN from 1000 returns true and leaves the balance NaN, although
  \<open>balance - amount \<ge> overdraftLimit\<close> is false as well.
\<close>

theorem Withdraw_postcondition_counterexample:
  "BankAccount_Withdraw \<lparr>balance = Finite 1000\<rparr> NaN = (True, \<lparr>balance = NaN\<rparr>)
   \<and> \<not> overdraftLimit \<le> Finite 1000 - NaN"
  by (simp add: BankAccount_Withdraw_def minus_NaN not_NaN_less not_less_eq_NaN)

text \<open>
  C4 (amended). For an account with balance \<open>B\<close> and an amount \<open>A\<close> such that \<open>B - A\<close> is
  not NaN, \<^verbatim>\<open>Withdraw(A)\<close> returns true and leaves the balance \<open>B - A\<close> exactly when
  \<open>B - A \<ge> overdraftLimit\<close>; otherwise it returns false and the account is as before.
  When \<open>B - A\<close> is NaN, it returns true and leaves the balance NaN.
\<close>

theorem Withdraw_postcondition:
  fixes acct :: "float64 BankAccount"
  shows "(balance acct - amt \<noteq> NaN \<longrightarrow>
            BankAccount_Withdraw acct amt =
              (if overdraftLimit \<le> balance acct - amt
               then (True, acct\<lparr>balance := balance acct - amt\<rparr>)
               else (False, acct)))
       \<and> (balance acct - amt = NaN \<longrightarrow>
            BankAccount_Withdraw acct amt = (True, acct\<lparr>balance := NaN\<rparr>))"
  using less_eq_iff_not_less [of "balance acct - amt" "Finite (- 500)"]
  by (auto simp add: BankAccount_Withdraw_def overdraftLimit_float64 not_NaN_less)

theorem Withdraw_postcondition_witness:
  "Finite 1000 - Finite 200 \<noteq> NaN
   \<and> BankAccount_Withdraw \<lparr>balance = Finite 1000\<rparr> (Finite 200) = (True, \<lparr>balance = Finite 800\<rparr>)
   \<and> Finite 700 - Finite 2000 \<noteq> NaN
   \<and> BankAccount_Withdraw \<lparr>balance = Finite 700\<rparr> (Finite 2000) = (False, \<lparr>balance = Finite 700\<rparr>)
   \<and> PosInf - PosInf = NaN
   \<and> BankAccount_Withdraw \<lparr>balance = PosInf\<rparr> PosInf = (True, \<lparr>balance = NaN\<rparr>)"
  using Withdraw_postcondition [of "\<lparr>balance = Finite 1000\<rparr>" "Finite 200"]
    Withdraw_postcondition [of "\<lparr>balance = Finite 700\<rparr>" "Finite 2000"]
    Withdraw_postcondition [of "\<lparr>balance = PosInf\<rparr>" PosInf]
  by (simp add: overdraftLimit_float64 float64_eval PosInf_minus_PosInf)

text \<open>
  A withdrawal that returns true need not leave a balance of at least
  \<open>overdraftLimit\<close>: withdrawing NaN from an account at 0 returns true and leaves the
  balance NaN.
\<close>

theorem Withdraw_respects_floor_counterexample:
  "fst (BankAccount_Withdraw \<lparr>balance = Finite 0\<rparr> NaN)
   \<and> balance (snd (BankAccount_Withdraw \<lparr>balance = Finite 0\<rparr> NaN)) = NaN
   \<and> \<not> overdraftLimit \<le> balance (snd (BankAccount_Withdraw \<lparr>balance = Finite 0\<rparr> NaN))"
  by (simp add: BankAccount_Withdraw_def minus_NaN not_NaN_less not_less_eq_NaN)

text \<open>
  C10 (amended). Whatever the amount, negative or larger than the balance, a withdrawal
  that returns true leaves a balance that is not below \<open>overdraftLimit\<close>, and that is at
  least \<open>overdraftLimit\<close> unless it is NaN. A deposit checks nothing: it adds the amount
  whatever its sign, so that depositing \<open>-1000\<close> into an account at 0 leaves it below
  \<open>overdraftLimit\<close>.
\<close>

theorem Withdraw_respects_floor_Deposit_does_not:
  fixes acct :: "float64 BankAccount"
  shows "(fst (BankAccount_Withdraw acct amt) \<longrightarrow>
            \<not> balance (snd (BankAccount_Withdraw acct amt)) < overdraftLimit
            \<and> (balance (snd (BankAccount_Withdraw acct amt)) \<noteq> NaN \<longrightarrow>
                 overdraftLimit \<le> balance (snd (BankAccount_Withdraw acct amt))))
       \<and> BankAccount_Deposit acct amt = acct\<lparr>balance := balance acct + amt\<rparr>
       \<and> balance (BankAccount_Deposit \<lparr>balance = Finite 0\<rparr> (Finite (- 1000))) < overdraftLimit"
  using less_eq_iff_not_less [of "balance acct - amt" "Finite (- 500)"]
  by (auto simp add: BankAccount_Withdraw_def BankAccount_Deposit_def overdraftLimit_float64 float64_eval)

theorem Withdraw_respects_floor_witness:
  "fst (BankAccount_Withdraw \<lparr>balance = Finite 1000\<rparr> (Finite 200))
   \<and> balance (snd (BankAccount_Withdraw \<lparr>balance = Finite 1000\<rparr> (Finite 200))) = Finite 800
   \<and> (overdraftLimit :: float64) \<le> Finite 800
   \<and> fst (BankAccount_Withdraw \<lparr>balance = Finite 0\<rparr> (Finite (- 300)))
   \<and> balance (BankAccount_Deposit \<lparr>balance = Finite 0\<rparr> (Finite (- 1000))) = Finite (- 1000)"
  using Withdraw_respects_floor_Deposit_does_not [of "\<lparr>balance = Finite 1000\<rparr>" "Finite 200"]
  by (simp add: BankAccount_Withdraw_def BankAccount_Deposit_def overdraftLimit_float64 float64_eval)

section \<open>The leaf command\<close>

text \<open>
  \<^verbatim>\<open>Call()\<close> followed by \<^verbatim>\<open>Undo()\<close> does not always give the balance back, even when
  the inverse operation passes the overdraft check: the undo of a deposit computes
  \<open>(B + A) - A\<close>, and both operations round. Depositing 1 into an account at
  9007199254740992 (that is \<open>2\<^sup>5\<^sup>3\<close>) leaves it there, since the sum is not representable
  and rounds to even, and the undo leaves 9007199254740991.
\<close>

theorem leaf_undo_roundtrip_counterexample:
  "BankAccountCommand_Succeeded 0 (BankAccountCommand_Call 0
       (snd (new_BankAccountCommand \<lparr>account = 0, action = Deposit, amount = Finite 1, succeeded = False\<rparr>
          (accounts_store (Finite 9007199254740992) 0))))
   \<and> balance (account_at (BankAccountCommand_Call 0
       (snd (new_BankAccountCommand \<lparr>account = 0, action = Deposit, amount = Finite 1, succeeded = False\<rparr>
          (accounts_store (Finite 9007199254740992) 0)))) 0) = Finite 9007199254740992
   \<and> overdraftLimit \<le> Finite 9007199254740992 - Finite 1
   \<and> balance (account_at (BankAccountCommand_Undo 0 (BankAccountCommand_Call 0
       (snd (new_BankAccountCommand \<lparr>account = 0, action = Deposit, amount = Finite 1, succeeded = False\<rparr>
          (accounts_store (Finite 9007199254740992) 0))))) 0) = Finite 9007199254740991"
  by (simp add: new_BankAccountCommand_def accounts_store_def overdraftLimit_float64 leaf_defs float64_eval)

text \<open>
  C5 (amended). A leaf command, of either kind, whose \<^verbatim>\<open>Call()\<close> succeeded, under the
  precondition that the inverse operation passes the overdraft check (for a deposit:
  the balance after the deposit minus the amount is not below \<open>overdraftLimit\<close>):
  \<^verbatim>\<open>Call()\<close> followed by \<^verbatim>\<open>Undo()\<close> leaves the balance of its account at \<open>(B + A) - A\<close> for
  a deposit and at \<open>(B - A) + A\<close> for a withdrawal, as the program's arithmetic computes
  them, and leaves every other account as it was. Where that result is the balance
  \<open>B\<close> before the call (the two operations were exact), every account is as it was
  before the call. No law of arithmetic is used.
\<close>

theorem leaf_undo_roundtrip:
  fixes s :: "'a::{one,plus,minus,uminus,ord} store"
  assumes "BankAccountCommand_Succeeded p (BankAccountCommand_Call p s)"
    and "action (command_at s p) = Deposit \<longrightarrow>
           \<not> balance (account_at (BankAccountCommand_Call p s) (account (command_at s p)))
               - amount (command_at s p) < overdraftLimit"
  shows "(let c = command_at s p; B = balance (account_at s (account c)); A = amount c;
              B' = (case action c of Deposit \<Rightarrow> (B + A) - A | Withdraw \<Rightarrow> (B - A) + A);
              s' = BankAccountCommand_Undo p (BankAccountCommand_Call p s)
          in balance (account_at s' (account c)) = B'
           \<and> (\<forall>a. a \<noteq> account c \<longrightarrow> account_at s' a = account_at s a)
           \<and> (B' = B \<longrightarrow> account_at s' = account_at s))"
  using assms
  by (cases "action (command_at s p)") (auto simp add: leaf_defs fun_eq_iff split: if_splits)

theorem leaf_undo_roundtrip_witness:
  "BankAccountCommand_Succeeded 0 (BankAccountCommand_Call 0
       (snd (new_BankAccountCommand \<lparr>account = 0, action = Deposit, amount = Finite 500, succeeded = False\<rparr>
          (accounts_store (Finite 800) 0))))
   \<and> balance (account_at (BankAccountCommand_Call 0
       (snd (new_BankAccountCommand \<lparr>account = 0, action = Deposit, amount = Finite 500, succeeded = False\<rparr>
          (accounts_store (Finite 800) 0)))) 0) = Finite 1300
   \<and> \<not> Finite 1300 - Finite 500 < overdraftLimit
   \<and> balance (account_at (BankAccountCommand_Undo 0 (BankAccountCommand_Call 0
       (snd (new_BankAccountCommand \<lparr>account = 0, action = Deposit, amount = Finite 500, succeeded = False\<rparr>
          (accounts_store (Finite 800) 0))))) 0) = Finite 800
   \<and> BankAccountCommand_Succeeded 0 (BankAccountCommand_Call 0
       (snd (new_BankAccountCommand \<lparr>account = 0, action = Withdraw, amount = Finite 200, succeeded = False\<rparr>
          (accounts_store (Finite 1000) 0))))
   \<and> balance (account_at (BankAccountCommand_Undo 0 (BankAccountCommand_Call 0
       (snd (new_BankAccountCommand \<lparr>account = 0, action = Withdraw, amount = Finite 200, succeeded = False\<rparr>
          (accounts_store (Finite 1000) 0))))) 0) = Finite 1000"
  using leaf_undo_roundtrip [of 0
      "snd (new_BankAccountCommand \<lparr>account = 0, action = Deposit, amount = Finite 500, succeeded = False\<rparr>
          (accounts_store (Finite 800) 0))"]
    leaf_undo_roundtrip [of 0
      "snd (new_BankAccountCommand \<lparr>account = 0, action = Withdraw, amount = Finite 200, succeeded = False\<rparr>
          (accounts_store (Finite 1000) 0))"]
  by (simp add: new_BankAccountCommand_def accounts_store_def overdraftLimit_float64 leaf_defs float64_eval)

text \<open>
  C6. A leaf command whose flag is false, because its \<^verbatim>\<open>Call()\<close> failed or because it
  never ran: \<^verbatim>\<open>Undo()\<close> changes nothing, so no balance changes.
\<close>

theorem leaf_undo_after_failure:
  assumes "\<not> BankAccountCommand_Succeeded p s"
  shows "BankAccountCommand_Undo p s = s"
  using assms by (simp add: leaf_defs)

theorem leaf_undo_after_failure_witness:
  "\<not> BankAccountCommand_Succeeded 0 (BankAccountCommand_Call 0
       (snd (new_BankAccountCommand \<lparr>account = 0, action = Withdraw, amount = 2000, succeeded = False\<rparr>
          (accounts_store (700::real) 800))))
   \<and> balance (account_at (BankAccountCommand_Undo 0 (BankAccountCommand_Call 0
       (snd (new_BankAccountCommand \<lparr>account = 0, action = Withdraw, amount = 2000, succeeded = False\<rparr>
          (accounts_store (700::real) 800))))) 0) = 700"
  using leaf_undo_after_failure [of 0 "BankAccountCommand_Call 0
       (snd (new_BankAccountCommand \<lparr>account = 0, action = Withdraw, amount = 2000, succeeded = False\<rparr>
          (accounts_store (700::real) 800)))"]
  by (simp add: new_BankAccountCommand_def accounts_store_def overdraftLimit_numeral leaf_defs)

section \<open>The composite command\<close>

text \<open>
  C7. \<^verbatim>\<open>Call()\<close> of the base composite calls \<^verbatim>\<open>Call()\<close> of every member, in the order
  of the slice, whatever the members before it did. Only the transfer stops calling: once
  a member has failed, the members after it get \<^verbatim>\<open>SetSucceeded(false)\<close> and are not
  called.
\<close>

theorem composite_call_all_members:
  "Call (Composite commands) s = fold Call commands s
   \<and> Call (MoneyTransfer (cmd # cmds) from to amt) s =
       (if Succeeded cmd (Call cmd s) then Call (MoneyTransfer cmds from to amt) (Call cmd s)
        else fold (\<lambda>m. SetSucceeded m False) cmds (Call cmd s))"
  by (simp add: composite_call_fold transfer_loop_failed Let_def)

text \<open>
  The difference on the failing transfer of \<^verbatim>\<open>main\<close> (2000 from an account at 700, the
  other at 800): called as a base composite, the two legs still deposit the 2000; called
  as a transfer, they leave the second account at 800.
\<close>

lemma composite_goes_on_after_failure:
  "balance (account_at (Call (Composite [Leaf 0, Leaf (Suc 0)])
       (snd (NewMoneyTransferCommand 0 (Suc 0) 2000 (accounts_store (700::real) 800)))) (Suc 0)) = 2800
   \<and> balance (account_at (Call (MoneyTransfer [Leaf 0, Leaf (Suc 0)] 0 (Suc 0) 2000)
       (snd (NewMoneyTransferCommand 0 (Suc 0) 2000 (accounts_store (700::real) 800)))) (Suc 0)) = 800"
  by (simp add: NewMoneyTransferCommand_eq accounts_store_def overdraftLimit_numeral leaf_defs)

text \<open>
  C8. \<^verbatim>\<open>Succeeded()\<close> of a composite is true exactly when \<^verbatim>\<open>Succeeded()\<close> of every
  member is true; it is true for the composite with no members.
\<close>

theorem composite_succeeded_iff:
  "(Succeeded (Composite commands) s \<longleftrightarrow> (\<forall>cmd \<in> set commands. Succeeded cmd s))
   \<and> Succeeded (Composite []) s"
  by (simp add: composite_succeeded_all)

theorem composite_succeeded_iff_witness:
  "Succeeded (Composite [Leaf 0, Leaf (Suc 0)])
     (Call (fst (NewMoneyTransferCommand 0 (Suc 0) 300 (accounts_store (1000::real) 500)))
        (snd (NewMoneyTransferCommand 0 (Suc 0) 300 (accounts_store (1000::real) 500))))
   \<and> \<not> Succeeded (Composite [Leaf 0, Leaf (Suc 0)])
     (Call (fst (NewMoneyTransferCommand 0 (Suc 0) 2000 (accounts_store (700::real) 800)))
        (snd (NewMoneyTransferCommand 0 (Suc 0) 2000 (accounts_store (700::real) 800))))"
  using composite_succeeded_iff [of "[Leaf 0, Leaf (Suc 0)]"
     "Call (fst (NewMoneyTransferCommand 0 (Suc 0) 300 (accounts_store (1000::real) 500)))
        (snd (NewMoneyTransferCommand 0 (Suc 0) 300 (accounts_store (1000::real) 500)))"]
    composite_succeeded_iff [of "[Leaf 0, Leaf (Suc 0)]"
     "Call (fst (NewMoneyTransferCommand 0 (Suc 0) 2000 (accounts_store (700::real) 800)))
        (snd (NewMoneyTransferCommand 0 (Suc 0) 2000 (accounts_store (700::real) 800)))"]
  by (simp add: NewMoneyTransferCommand_eq accounts_store_def overdraftLimit_numeral leaf_defs)

text \<open>
  C9. \<^verbatim>\<open>SetSucceeded(v)\<close> on a leaf, a composite or a transfer leaves every account as
  it is. In the store of commands it sets the flag of the leaf commands the command
  reaches to \<open>v\<close> and changes nothing else.
\<close>

theorem SetSucceeded_frame:
  "account_at (SetSucceeded c v s) = account_at s
   \<and> command_at (SetSucceeded c v s) =
       (\<lambda>p. if p \<in> leaves c then (command_at s p)\<lparr>succeeded := v\<rparr> else command_at s p)
   \<and> fresh (SetSucceeded c v s) = fresh s"
  by (simp add: SetSucceeded_set_flags set_flags_def)

section \<open>The money transfer\<close>

text \<open>
  In the theorems of this section \<open>s\<close> is the store in which
  \<^verbatim>\<open>NewMoneyTransferCommand(from, to, amount)\<close> is called, \<open>t\<close> the command it returns and
  \<open>s1\<close> the store that holds the two legs; \<^verbatim>\<open>Call()\<close> follows at once.
\<close>

text \<open>
  C1. If the withdrawal would take the balance of \<open>from\<close> below \<open>overdraftLimit\<close>,
  then after \<^verbatim>\<open>Call()\<close> the balances of \<open>from\<close> and \<open>to\<close> are what they were (no account
  has changed: the deposit leg has not run), \<^verbatim>\<open>Succeeded()\<close> is false, and the flag of
  the deposit leg is false. The two accounts may be the same one.
\<close>

theorem transfer_atomic_on_failure:
  fixes s :: "'a::{one,plus,minus,uminus,ord} store"
  assumes "NewMoneyTransferCommand from to amt s = (t, s1)"
    and "balance (account_at s from) - amt < overdraftLimit"
  shows "balance (account_at (Call t s1) from) = balance (account_at s from)
       \<and> balance (account_at (Call t s1) to) = balance (account_at s to)
       \<and> \<not> Succeeded t (Call t s1)
       \<and> account_at (Call t s1) = account_at s
       \<and> (\<exists>withdrawCmd depositCmd. t = MoneyTransfer [withdrawCmd, depositCmd] from to amt
            \<and> \<not> Succeeded depositCmd (Call t s1))"
  using assms by (auto simp add: NewMoneyTransferCommand_eq leaf_defs)

theorem transfer_atomic_on_failure_witness:
  "balance (account_at (accounts_store (700::real) 800) 0) - 2000 < overdraftLimit
   \<and> balance (account_at (Call (fst (NewMoneyTransferCommand 0 (Suc 0) 2000 (accounts_store (700::real) 800)))
         (snd (NewMoneyTransferCommand 0 (Suc 0) 2000 (accounts_store (700::real) 800)))) 0) = 700
   \<and> balance (account_at (Call (fst (NewMoneyTransferCommand 0 (Suc 0) 2000 (accounts_store (700::real) 800)))
         (snd (NewMoneyTransferCommand 0 (Suc 0) 2000 (accounts_store (700::real) 800)))) (Suc 0)) = 800
   \<and> \<not> Succeeded (fst (NewMoneyTransferCommand 0 (Suc 0) 2000 (accounts_store (700::real) 800)))
        (Call (fst (NewMoneyTransferCommand 0 (Suc 0) 2000 (accounts_store (700::real) 800)))
         (snd (NewMoneyTransferCommand 0 (Suc 0) 2000 (accounts_store (700::real) 800))))"
  using transfer_atomic_on_failure [of 0 "Suc 0" "2000::real" "accounts_store 700 800"
      "fst (NewMoneyTransferCommand 0 (Suc 0) 2000 (accounts_store (700::real) 800))"
      "snd (NewMoneyTransferCommand 0 (Suc 0) 2000 (accounts_store (700::real) 800))"]
  by (simp add: accounts_store_def overdraftLimit_numeral)

text \<open>
  C2. For two different accounts, if the withdrawal leg succeeds, that is if
  \<open>from.balance - amount < overdraftLimit\<close> does not hold (in a linear order:
  \<open>from.balance - amount \<ge> overdraftLimit\<close>), then after \<^verbatim>\<open>Call()\<close> the balance of
  \<open>from\<close> is the old one minus the amount, the balance of \<open>to\<close> is the old one plus the
  amount, and \<^verbatim>\<open>Succeeded()\<close> is true.
\<close>

theorem transfer_success:
  fixes s :: "'a::{one,plus,minus,uminus,ord} store"
  assumes "NewMoneyTransferCommand from to amt s = (t, s1)"
    and "from \<noteq> to"
    and "\<not> balance (account_at s from) - amt < overdraftLimit"
  shows "balance (account_at (Call t s1) from) = balance (account_at s from) - amt
       \<and> balance (account_at (Call t s1) to) = balance (account_at s to) + amt
       \<and> Succeeded t (Call t s1)"
  using assms by (auto simp add: NewMoneyTransferCommand_eq leaf_defs)

theorem transfer_success_witness:
  "(0::nat) \<noteq> Suc 0
   \<and> \<not> balance (account_at (accounts_store (1000::real) 500) 0) - 300 < overdraftLimit
   \<and> balance (account_at (Call (fst (NewMoneyTransferCommand 0 (Suc 0) 300 (accounts_store (1000::real) 500)))
         (snd (NewMoneyTransferCommand 0 (Suc 0) 300 (accounts_store (1000::real) 500)))) 0) = 700
   \<and> balance (account_at (Call (fst (NewMoneyTransferCommand 0 (Suc 0) 300 (accounts_store (1000::real) 500)))
         (snd (NewMoneyTransferCommand 0 (Suc 0) 300 (accounts_store (1000::real) 500)))) (Suc 0)) = 800
   \<and> Succeeded (fst (NewMoneyTransferCommand 0 (Suc 0) 300 (accounts_store (1000::real) 500)))
        (Call (fst (NewMoneyTransferCommand 0 (Suc 0) 300 (accounts_store (1000::real) 500)))
         (snd (NewMoneyTransferCommand 0 (Suc 0) 300 (accounts_store (1000::real) 500))))"
  using transfer_success [of 0 "Suc 0" "300::real" "accounts_store 1000 500"
      "fst (NewMoneyTransferCommand 0 (Suc 0) 300 (accounts_store (1000::real) 500))"
      "snd (NewMoneyTransferCommand 0 (Suc 0) 300 (accounts_store (1000::real) 500))"]
  by (simp add: accounts_store_def overdraftLimit_numeral)

text \<open>
  The round trip of a transfer does not hold for every pair of accounts and every
  amount, for two reasons. Undoing the deposit is a \<^verbatim>\<open>Withdraw\<close>, which the overdraft
  check can reject, and \<^verbatim>\<open>Undo()\<close> drops its result: with \<open>from\<close> at 1000 and \<open>to\<close> at
  -1000, a transfer of 300 succeeds and leaves \<open>to\<close> at -700; the undo would take it back
  to -1000, below -500, so \<open>to\<close> stays at -700. And the undo of the deposit computes
  \<open>(T + A) - A\<close>, which rounds: with \<open>from\<close> at 100 and \<open>to\<close> at 9007199254740992, a
  transfer of 1 succeeds and leaves \<open>to\<close> where it is, and the undo leaves it at
  9007199254740991.
\<close>

theorem transfer_undo_counterexample:
  "Succeeded (fst (NewMoneyTransferCommand 0 (Suc 0) (Finite 300) (accounts_store (Finite 1000) (Finite (- 1000)))))
        (Call (fst (NewMoneyTransferCommand 0 (Suc 0) (Finite 300) (accounts_store (Finite 1000) (Finite (- 1000)))))
         (snd (NewMoneyTransferCommand 0 (Suc 0) (Finite 300) (accounts_store (Finite 1000) (Finite (- 1000))))))
   \<and> balance (account_at
        (Undo (fst (NewMoneyTransferCommand 0 (Suc 0) (Finite 300) (accounts_store (Finite 1000) (Finite (- 1000)))))
          (Call (fst (NewMoneyTransferCommand 0 (Suc 0) (Finite 300) (accounts_store (Finite 1000) (Finite (- 1000)))))
            (snd (NewMoneyTransferCommand 0 (Suc 0) (Finite 300) (accounts_store (Finite 1000) (Finite (- 1000)))))))
        (Suc 0)) = Finite (- 700)
   \<and> Succeeded (fst (NewMoneyTransferCommand 0 (Suc 0) (Finite 1) (accounts_store (Finite 100) (Finite 9007199254740992))))
        (Call (fst (NewMoneyTransferCommand 0 (Suc 0) (Finite 1) (accounts_store (Finite 100) (Finite 9007199254740992))))
         (snd (NewMoneyTransferCommand 0 (Suc 0) (Finite 1) (accounts_store (Finite 100) (Finite 9007199254740992)))))
   \<and> balance (account_at
        (Undo (fst (NewMoneyTransferCommand 0 (Suc 0) (Finite 1) (accounts_store (Finite 100) (Finite 9007199254740992))))
          (Call (fst (NewMoneyTransferCommand 0 (Suc 0) (Finite 1) (accounts_store (Finite 100) (Finite 9007199254740992))))
            (snd (NewMoneyTransferCommand 0 (Suc 0) (Finite 1) (accounts_store (Finite 100) (Finite 9007199254740992))))))
        (Suc 0)) = Finite 9007199254740991"
  by (simp add: NewMoneyTransferCommand_eq accounts_store_def overdraftLimit_float64 leaf_defs float64_eval)

text \<open>
  C3 (amended). After a \<^verbatim>\<open>Call()\<close> that succeeded, \<^verbatim>\<open>Undo()\<close> is the undo of the deposit
  leg followed by the undo of the withdrawal leg. With \<open>F\<close> and \<open>T\<close> the balances of
  \<open>from\<close> and \<open>to\<close> before the call and \<open>A\<close> the amount, for two different accounts it
  leaves \<open>from\<close> at \<open>(F - A) + A\<close>, whatever happens to \<open>to\<close>, and it leaves \<open>to\<close> at
  \<open>(T + A) - A\<close> if the undo of the deposit passes the overdraft check
  (\<open>(T + A) - A < overdraftLimit\<close> does not hold) and at \<open>T + A\<close> if it does not. Each
  of these is the balance before the call where the operations in it are exact. For
  one and the same account the balance left is given likewise. No other account
  changes. No law of arithmetic is used.
\<close>

theorem transfer_undo_restores:
  fixes s :: "'a::{one,plus,minus,uminus,ord} store"
  assumes new: "NewMoneyTransferCommand from to amt s = (t, s1)"
    and ok: "Succeeded t (Call t s1)"
  shows "(let F = balance (account_at s from); T = balance (account_at s to);
              s' = Undo t (Call t s1)
          in (\<exists>withdrawCmd depositCmd. t = MoneyTransfer [withdrawCmd, depositCmd] from to amt
                \<and> s' = Undo withdrawCmd (Undo depositCmd (Call t s1)))
           \<and> (from \<noteq> to \<longrightarrow>
                 balance (account_at s' from) = (F - amt) + amt
               \<and> balance (account_at s' to) =
                   (if (T + amt) - amt < overdraftLimit then T + amt else (T + amt) - amt))
           \<and> (from = to \<longrightarrow>
                 balance (account_at s' from) =
                   (if ((F - amt) + amt) - amt < overdraftLimit then (F - amt) + amt
                    else ((F - amt) + amt) - amt) + amt)
           \<and> (\<forall>a. a \<noteq> from \<and> a \<noteq> to \<longrightarrow> account_at s' a = account_at s a))"
proof -
  from new ok have floor: "\<not> balance (account_at s from) - amt < overdraftLimit"
    by (simp add: transfer_succeeded_iff)
  have same: "from = to \<Longrightarrow> NewMoneyTransferCommand from from amt s = (t, s1)"
    using new by simp
  show ?thesis
    unfolding Let_def
    using transfer_undo_order [OF new, of "Call t s1"]
      transfer_undo_distinct [OF new floor]
      transfer_undo_same [OF same floor]
      transfer_undo_frame [OF new]
    by blast
qed

theorem transfer_undo_restores_witness:
  "Succeeded (fst (NewMoneyTransferCommand 0 (Suc 0) (Finite 300) (accounts_store (Finite 1000) (Finite 500))))
        (Call (fst (NewMoneyTransferCommand 0 (Suc 0) (Finite 300) (accounts_store (Finite 1000) (Finite 500))))
         (snd (NewMoneyTransferCommand 0 (Suc 0) (Finite 300) (accounts_store (Finite 1000) (Finite 500)))))
   \<and> balance (account_at
        (Undo (fst (NewMoneyTransferCommand 0 (Suc 0) (Finite 300) (accounts_store (Finite 1000) (Finite 500))))
          (Call (fst (NewMoneyTransferCommand 0 (Suc 0) (Finite 300) (accounts_store (Finite 1000) (Finite 500))))
            (snd (NewMoneyTransferCommand 0 (Suc 0) (Finite 300) (accounts_store (Finite 1000) (Finite 500)))))) 0) = Finite 1000
   \<and> balance (account_at
        (Undo (fst (NewMoneyTransferCommand 0 (Suc 0) (Finite 300) (accounts_store (Finite 1000) (Finite 500))))
          (Call (fst (NewMoneyTransferCommand 0 (Suc 0) (Finite 300) (accounts_store (Finite 1000) (Finite 500))))
            (snd (NewMoneyTransferCommand 0 (Suc 0) (Finite 300) (accounts_store (Finite 1000) (Finite 500)))))) (Suc 0)) = Finite 500"
  using transfer_undo_restores [of 0 "Suc 0" "Finite 300" "accounts_store (Finite 1000) (Finite 500)"
      "fst (NewMoneyTransferCommand 0 (Suc 0) (Finite 300) (accounts_store (Finite 1000) (Finite 500)))"
      "snd (NewMoneyTransferCommand 0 (Suc 0) (Finite 300) (accounts_store (Finite 1000) (Finite 500)))"]
  by (simp add: NewMoneyTransferCommand_eq accounts_store_def overdraftLimit_float64 leaf_defs float64_eval)

end
